theory Spec2Isabelle
  imports Complex_Main "HOL-Library.Stream"
begin

section \<open>Data model (models/courseware.py, models/course.py)\<close>

text \<open>
  The pydantic models become records, the element union a datatype. A Python
  \<open>dict[int, V]\<close> is an association list \<open>(int \<times> V) list\<close> in insertion order
  (the order \<open>.items()\<close> iterates in); \<open>d[k]\<close> is \<open>map_of d k\<close>, with \<open>None\<close> standing
  for the \<open>KeyError\<close>. Python's unbounded \<open>int\<close> is \<open>int\<close>.
\<close>

record Question =
  question_id :: int
  question_score :: int
  question_content :: string
  question_answer_list :: "string list"

datatype Element =
    ElementContent string
  | ElementDocumen string
  | ElementVideo int int
  | ElementQuestion "Question list"

record CoursewarePage =
  page_id :: int
  page_relation_id :: int
  page_name :: string
  page_content_type :: int
  is_complete :: bool
  elements :: "Element list"

record CoursewareSection =
  section_id :: int
  section_name :: string
  pages :: "(int \<times> CoursewarePage) list"

record CoursewareChapter =
  chapter_id :: int
  chapter_name :: string
  sections :: "(int \<times> CoursewareSection) list"

record ModelTextbook =
  textbook_id :: int
  textbook_name :: string
  status :: int
  limit :: int
  chapters :: "(int \<times> CoursewareChapter) list"

record ModelCourse =
  course_id :: int
  course_name :: string
  class_id :: int
  class_user_id :: int
  textbooks :: "(int \<times> ModelTextbook) list"

section \<open>Pruning (the \<open>prune\<close> methods of the four containers)\<close>

text \<open>
  Each \<open>prune\<close> iterates over a snapshot \<open>dict(self.xs).items()\<close> and pops the key of
  the entry it is visiting from \<open>self.xs\<close>. The keys of a dict are unique, so the pop
  removes exactly the visited entry: the loop is a recursion over the entries that
  keeps or drops each one. A child is pruned in place before its emptiness is tested.
\<close>

fun prune_pages :: "(int \<times> CoursewarePage) list \<Rightarrow> (int \<times> CoursewarePage) list" where
  "prune_pages [] = []"
| "prune_pages ((pid, page) # rest) =
     (if is_complete page then prune_pages rest else (pid, page) # prune_pages rest)"

definition section_prune :: "CoursewareSection \<Rightarrow> CoursewareSection" where
  "section_prune s = s\<lparr>pages := prune_pages (pages s)\<rparr>"

fun prune_sections ::
  "bool \<Rightarrow> (int \<times> CoursewareSection) list \<Rightarrow> (int \<times> CoursewareSection) list" where
  "prune_sections remove_complete [] = []"
| "prune_sections remove_complete ((sid, section) # rest) =
     (let section' = (if remove_complete then section_prune section else section)
      in if pages section' = [] then prune_sections remove_complete rest
         else (sid, section') # prune_sections remove_complete rest)"

definition chapter_prune :: "bool \<Rightarrow> CoursewareChapter \<Rightarrow> CoursewareChapter" where
  "chapter_prune remove_complete c =
     c\<lparr>sections := prune_sections remove_complete (sections c)\<rparr>"

fun prune_chapters ::
  "bool \<Rightarrow> (int \<times> CoursewareChapter) list \<Rightarrow> (int \<times> CoursewareChapter) list" where
  "prune_chapters remove_complete [] = []"
| "prune_chapters remove_complete ((cid, chapter) # rest) =
     (let chapter' = chapter_prune remove_complete chapter
      in if sections chapter' = [] then prune_chapters remove_complete rest
         else (cid, chapter') # prune_chapters remove_complete rest)"

definition textbook_prune :: "bool \<Rightarrow> ModelTextbook \<Rightarrow> ModelTextbook" where
  "textbook_prune remove_complete t =
     t\<lparr>chapters := prune_chapters remove_complete (chapters t)\<rparr>"

fun prune_textbooks ::
  "bool \<Rightarrow> (int \<times> ModelTextbook) list \<Rightarrow> (int \<times> ModelTextbook) list" where
  "prune_textbooks remove_complete [] = []"
| "prune_textbooks remove_complete ((tid, textbook) # rest) =
     (let textbook' = textbook_prune remove_complete textbook
      in if chapters textbook' = [] then prune_textbooks remove_complete rest
         else (tid, textbook') # prune_textbooks remove_complete rest)"

definition course_prune :: "bool \<Rightarrow> ModelCourse \<Rightarrow> ModelCourse" where
  "course_prune remove_complete c =
     c\<lparr>textbooks := prune_textbooks remove_complete (textbooks c)\<rparr>"

section \<open>Dictionary write-back and logging\<close>

text \<open>
  The parsers mutate objects that sit inside nested dicts. In the model the mutated
  object is stored back under its key: \<open>dict_set k v d\<close> is \<open>d[k] = v\<close>, which keeps
  the position of an existing key and appends a new one.
\<close>

fun dict_set :: "'k \<Rightarrow> 'v \<Rightarrow> ('k \<times> 'v) list \<Rightarrow> ('k \<times> 'v) list" where
  "dict_set k v [] = [(k, v)]"
| "dict_set k v ((k', v') # rest) =
     (if k' = k then (k, v) # rest else (k', v') # dict_set k v rest)"

text \<open>
  Log records of loguru, by level. The messages are abbreviated in English; the warning
  for an unknown element carries the remote type code the source formats into it.
\<close>

datatype log_entry =
    LogDebug string
  | LogWarningElementType int
  | LogError string

section \<open>Study records (\<open>DataManager.parse_study_record_info\<close>)\<close>

text \<open>
  \<open>StudyRecordAPIResponse\<close> and its \<open>PageStudyRecordDTO\<close>, with the fields the parser
  reads: \<open>node_id\<close> (chapter), \<open>item_id\<close> (section), and per page \<open>pageid\<close> (a
  \<open>page_relation_id\<close>) and \<open>complete\<close>.
\<close>

record StudyRecordPage =
  pageid :: int
  complete :: int

record StudyRecordAPIResponse =
  node_id :: int
  item_id :: int
  pageStudyRecordDTOList :: "StudyRecordPage list"

text \<open>The inner loop over \<open>course_config_pages.items()\<close> for one record entry;
  \<open>bool(page_is_complete)\<close> is \<open>page_is_complete \<noteq> 0\<close>.\<close>

fun mark_pages :: "int \<Rightarrow> int \<Rightarrow> (int \<times> CoursewarePage) list \<Rightarrow> (int \<times> CoursewarePage) list" where
  "mark_pages rid page_is_complete [] = []"
| "mark_pages rid page_is_complete ((course_page_id, course_page_info) # rest) =
     (course_page_id,
      if page_relation_id course_page_info = rid
      then course_page_info\<lparr>is_complete := (page_is_complete \<noteq> 0)\<rparr>
      else course_page_info) # mark_pages rid page_is_complete rest"

text \<open>The outer loop over \<open>study_record_info.pageStudyRecordDTOList\<close>.\<close>

fun apply_page_records ::
  "StudyRecordPage list \<Rightarrow> (int \<times> CoursewarePage) list \<Rightarrow> (int \<times> CoursewarePage) list" where
  "apply_page_records [] course_config_pages = course_config_pages"
| "apply_page_records (page_info # rest) course_config_pages =
     apply_page_records rest
       (mark_pages (pageid page_info) (complete page_info) course_config_pages)"

text \<open>
  The tree after the section found under textbook \<open>tid\<close>, chapter \<open>cid\<close>, section
  \<open>sid\<close> had its pages mutated in place to \<open>pgs\<close>.
\<close>

definition store_pages ::
  "ModelCourse \<Rightarrow> int \<Rightarrow> ModelTextbook \<Rightarrow> int \<Rightarrow> CoursewareChapter \<Rightarrow> int \<Rightarrow>
   CoursewareSection \<Rightarrow> (int \<times> CoursewarePage) list \<Rightarrow> ModelCourse" where
  "store_pages c tid tb cid ch sid sec pgs =
     c\<lparr>textbooks := dict_set tid
        (tb\<lparr>chapters := dict_set cid
           (ch\<lparr>sections := dict_set sid (sec\<lparr>pages := pgs\<rparr>) (sections ch)\<rparr>)
           (chapters tb)\<rparr>)
        (textbooks c)\<rparr>"

text \<open>
  The three subscripts at the head of the \<open>try\<close> block raise \<open>KeyError\<close> on a missing
  key; the \<open>except Exception\<close> clause logs the error and returns \<open>False\<close>. Nothing has
  been mutated at that point. The result is the returned flag, the tree afterwards and
  the log records written.
\<close>

definition parse_study_record_info ::
  "ModelCourse \<Rightarrow> int \<Rightarrow> StudyRecordAPIResponse \<Rightarrow> bool \<times> ModelCourse \<times> log_entry list" where
  "parse_study_record_info course_config tid study_record_info =
     (let failed = (False, course_config,
            [LogDebug ''parse study record'', LogError ''parse study record failed''])
      in case map_of (textbooks course_config) tid of
           None \<Rightarrow> failed
         | Some course_config_textbook \<Rightarrow>
       (case map_of (chapters course_config_textbook) (node_id study_record_info) of
           None \<Rightarrow> failed
         | Some course_config_chapter \<Rightarrow>
       (case map_of (sections course_config_chapter) (item_id study_record_info) of
           None \<Rightarrow> failed
         | Some course_config_section \<Rightarrow>
            (True,
             store_pages course_config tid course_config_textbook
               (node_id study_record_info) course_config_chapter
               (item_id study_record_info) course_config_section
               (apply_page_records (pageStudyRecordDTOList study_record_info)
                  (pages course_config_section)),
             [LogDebug ''parse study record'', LogDebug ''parse study record ok'']))))"


section \<open>Chapter details (\<open>DataManager.parse_chapter_info\<close>)\<close>







definition py_int :: "rat \<Rightarrow> int" where
  "py_int x = (if 0 \<le> x then \<lfloor>x\<rfloor> else \<lceil>x\<rceil>)"








section \<open>Notions used to state the claims about the parsers\<close>

text \<open>
  \<open>last_flag rid rs\<close> is the completion flag of the last entry of the record list
  \<open>rs\<close> whose \<open>pageid\<close> is \<open>rid\<close>, if there is one; \<open>marked_page\<close> is a page after a
  record list was applied to it. \<open>section_found\<close> and \<open>chapter_found\<close> say that the
  subscripts at the head of a parser succeed; \<open>refs_found\<close> adds that every page a
  chapter detail lists under a section of the tree is a page of that section.
  \<open>same_keys\<close> relates two section dicts with the same section ids and, per section,
  the same page ids.
\<close>

definition last_flag :: "int \<Rightarrow> StudyRecordPage list \<Rightarrow> int option" where
  "last_flag rid rs =
     (let es = filter (\<lambda>r. pageid r = rid) rs
      in if es = [] then None else Some (complete (last es)))"

definition marked_page :: "StudyRecordPage list \<Rightarrow> CoursewarePage \<Rightarrow> CoursewarePage" where
  "marked_page rs p =
     (case last_flag (page_relation_id p) rs of
        None \<Rightarrow> p
      | Some f \<Rightarrow> p\<lparr>is_complete := (f \<noteq> 0)\<rparr>)"






section \<open>HTTP client (\<open>HttpClient.get\<close>, \<open>HttpClient.post\<close>)\<close>






section \<open>Study-time configuration (models/config.py)\<close>

record MinMaxTime =
  min' :: int
  max' :: int

record StudyTime =
  question :: MinMaxTime
  document :: MinMaxTime
  content' :: MinMaxTime

section \<open>Sync request (models/api_request.py)\<close>

text \<open>
  \<open>SyncStudyRecordAPIRequest\<close> and its nested models, with the fields the builder sets
  (the others keep their declared defaults). Field names that the responses use as
  well carry a prefix here: \<open>v_\<close> for \<open>VideoDTO\<close>, \<open>q_\<close> for \<open>QuestionDTO\<close>, \<open>p_\<close>
  for \<open>PageStudyRecordDTO\<close>, \<open>r_\<close> for the request. Floats are rationals.
\<close>

record StartEndTime =
  startTime :: int
  endTime :: int

record VideoDTO =
  v_videoid :: int
  v_current :: rat
  v_recordTime :: rat
  v_time :: rat
  v_startEndTimeList :: "StartEndTime list"

record SyncQuestionDTO =
  q_questionid :: int
  q_answerList :: "string list"
  q_score :: int

record PageStudyRecordDTO =
  p_pageid :: int
  p_studyTime :: int
  p_score :: int
  p_coursepageId :: "int option"
  p_videos :: "VideoDTO list"
  p_questions :: "SyncQuestionDTO list"

record SyncStudyRecordAPIRequest =
  r_itemid :: int
  r_studyStartTime :: int
  r_userName :: string
  r_pageStudyRecordDTOList :: "PageStudyRecordDTO list"

section \<open>Ambient sources: \<open>random\<close> and \<open>time\<close>\<close>

text \<open>
  The builder draws from the module-level random generator and reads the wall clock.
  Both are made explicit as streams that the builder consumes: one entry of
  \<open>randint_source\<close> per call of \<open>random.randint\<close>, one entry of \<open>uniform_source\<close> per
  call of \<open>random.uniform\<close>, one entry of \<open>clock\<close> per call of \<open>time.time()\<close>.
  \<open>random.randint(a, b)\<close> raises \<open>ValueError\<close> for \<open>a > b\<close> (the \<open>None\<close> below) and
  otherwise returns an integer \<open>N\<close> with \<open>a \<le> N \<le> b\<close>; \<open>random.uniform(a, b)\<close> returns
  \<open>a + (b - a) * random()\<close>, a number between \<open>a\<close> and \<open>b\<close>. The stream entries are
  arbitrary and are mapped into these ranges, so that every value of the range can
  occur and no other.
\<close>

record Ambient =
  randint_source :: "nat stream"
  uniform_source :: "rat stream"
  clock :: "rat stream"

definition randint :: "int \<Rightarrow> int \<Rightarrow> nat \<Rightarrow> int option" where
  "randint a b entropy = (if a > b then None else Some (a + int entropy mod (b - a + 1)))"

definition uniform :: "rat \<Rightarrow> rat \<Rightarrow> rat \<Rightarrow> rat" where
  "uniform a b entropy = a + (b - a) * max 0 (min 1 entropy)"


section \<open>Building the report (\<open>DataManager.build_sync_study_record_request\<close>)\<close>

text \<open>The \<open>for ... break\<close> loop that looks for an \<open>ElementDocumen\<close>.\<close>

fun element_is_document :: "Element list \<Rightarrow> bool" where
  "element_is_document [] = False"
| "element_is_document (ElementDocumen d # rest) = True"
| "element_is_document (element # rest) = element_is_document rest"

text \<open>
  The loop over the elements of a video page. For each \<open>ElementVideo\<close> it adds the
  length to the study time, reads the clock, draws the watch time and appends a
  \<open>VideoDTO\<close>; other elements are skipped.
\<close>

fun build_videos ::
  "Element list \<Rightarrow> Ambient \<Rightarrow> int \<times> VideoDTO list \<Rightarrow> (int \<times> VideoDTO list) \<times> Ambient" where
  "build_videos [] amb acc = (acc, amb)"
| "build_videos (ElementVideo video_id video_length # rest) amb
       (page_study_time, page_study_record_dto_videos) =
     (let video_start_time = shd (clock amb);
          video_watch_time = of_int video_length - uniform 2 8 (shd (uniform_source amb))
      in build_videos rest
           (amb\<lparr>clock := stl (clock amb), uniform_source := stl (uniform_source amb)\<rparr>)
           (page_study_time + video_length,
            page_study_record_dto_videos @
              [\<lparr>v_videoid = video_id,
                v_current = video_watch_time,
                v_recordTime = video_watch_time,
                v_time = of_int video_length,
                v_startEndTimeList =
                  [\<lparr>startTime = py_int video_start_time,
                    endTime = py_int (video_start_time + video_watch_time)\<rparr>]\<rparr>]))"
| "build_videos (element # rest) amb acc = build_videos rest amb acc"

text \<open>The loops over the elements of a question page and over their questions.\<close>

fun build_question_list ::
  "Question list \<Rightarrow> int \<times> SyncQuestionDTO list \<Rightarrow> int \<times> SyncQuestionDTO list" where
  "build_question_list [] acc = acc"
| "build_question_list (q # rest) (page_score, page_study_record_dto_questions) =
     build_question_list rest
       (page_score + question_score q,
        page_study_record_dto_questions @
          [\<lparr>q_questionid = question_id q,
            q_answerList = question_answer_list q,
            q_score = question_score q\<rparr>])"

fun build_questions ::
  "Element list \<Rightarrow> int \<times> SyncQuestionDTO list \<Rightarrow> int \<times> SyncQuestionDTO list" where
  "build_questions [] acc = acc"
| "build_questions (ElementQuestion qs # rest) acc =
     build_questions rest (build_question_list qs acc)"
| "build_questions (element # rest) acc = build_questions rest acc"

text \<open>
  What the branch under \<open>if not is_first\<close> leaves behind for one page: an exception
  (\<open>Raised\<close>: the \<open>ValueError\<close> of \<open>randint\<close>, caught by the outer \<open>try\<close>), the
  \<open>continue\<close> for an unknown content type (\<open>Skipped\<close>), or the four values
  \<open>page_study_time\<close>, \<open>page_score\<close>, the video records and the question records.
\<close>

datatype simulated =
    Raised
  | Skipped
  | Simulated int int "VideoDTO list" "SyncQuestionDTO list"

definition simulate_page :: "StudyTime \<Rightarrow> CoursewarePage \<Rightarrow> Ambient \<Rightarrow> simulated \<times> Ambient" where
  "simulate_page study_time_config page_info amb =
     (if page_content_type page_info = 5 then
        (let element_num = int (length (elements page_info));
             bucket = (if element_is_document (elements page_info)
                       then document study_time_config else content' study_time_config)
         in case randint (min' bucket) (max' bucket) (shd (randint_source amb)) of
              None \<Rightarrow> (Raised, amb)
            | Some r \<Rightarrow>
                (Simulated (0 + min (r * element_num) 3600) 100 [] [],
                 amb\<lparr>randint_source := stl (randint_source amb)\<rparr>))
      else if page_content_type page_info = 6 then
        (case build_videos (elements page_info) amb (0, []) of
           ((page_study_time, videos), amb') \<Rightarrow> (Simulated page_study_time 100 videos [], amb'))
      else if page_content_type page_info = 7 then
        (case randint (min' (question study_time_config)) (max' (question study_time_config))
                (shd (randint_source amb)) of
           None \<Rightarrow> (Raised, amb)
         | Some r \<Rightarrow>
             (case build_questions (elements page_info) (0, []) of
                (page_score, questions) \<Rightarrow>
                  (Simulated (0 + min r 3600) page_score [] questions,
                   amb\<lparr>randint_source := stl (randint_source amb)\<rparr>)))
      else (Skipped, amb))"

text \<open>
  The body of the loop over \<open>pages.items()\<close> for one page: \<open>None\<close> for the exception,
  otherwise the records to append (none after \<open>continue\<close>, else one
  \<open>PageStudyRecordDTO\<close>). On the first pass the initial values \<open>0, 0, [], []\<close> are
  used as they are.
\<close>

definition build_page ::
  "StudyTime \<Rightarrow> bool \<Rightarrow> int \<Rightarrow> CoursewarePage \<Rightarrow> Ambient \<Rightarrow>
   PageStudyRecordDTO list option \<times> Ambient" where
  "build_page study_time_config is_first pid page_info amb =
     (case (if \<not> is_first then simulate_page study_time_config page_info amb
            else (Simulated 0 0 [] [], amb)) of
        (Raised, amb') \<Rightarrow> (None, amb')
      | (Skipped, amb') \<Rightarrow> (Some [], amb')
      | (Simulated page_study_time page_score videos questions, amb') \<Rightarrow>
          (Some [\<lparr>p_pageid = page_relation_id page_info,
                  p_studyTime = (if is_first then 0 else page_study_time),
                  p_score = page_score,
                  p_coursepageId = (if questions \<noteq> [] then Some pid else None),
                  p_videos = videos,
                  p_questions = questions\<rparr>], amb'))"

fun build_pages ::
  "StudyTime \<Rightarrow> bool \<Rightarrow> (int \<times> CoursewarePage) list \<Rightarrow> Ambient \<Rightarrow> PageStudyRecordDTO list \<Rightarrow>
   PageStudyRecordDTO list option \<times> Ambient" where
  "build_pages study_time_config is_first [] amb page_study_record_dto_list =
     (Some page_study_record_dto_list, amb)"
| "build_pages study_time_config is_first ((pid, page_info) # rest) amb
       page_study_record_dto_list =
     (case build_page study_time_config is_first pid page_info amb of
        (None, amb') \<Rightarrow> (None, amb')
      | (Some new, amb') \<Rightarrow>
          build_pages study_time_config is_first rest amb' (page_study_record_dto_list @ new))"

definition build_sync_study_record_request ::
  "int \<Rightarrow> CoursewareSection \<Rightarrow> string \<Rightarrow> StudyTime \<Rightarrow> bool \<Rightarrow> Ambient \<Rightarrow>
   SyncStudyRecordAPIRequest option \<times> Ambient" where
  "build_sync_study_record_request study_start_time section_info user_name study_time_config
       is_first amb =
     (case build_pages study_time_config is_first (pages section_info) amb [] of
        (None, amb') \<Rightarrow> (None, amb')
      | (Some page_study_record_dto_list, amb') \<Rightarrow>
          (Some \<lparr>r_itemid = section_id section_info,
                 r_studyStartTime = study_start_time,
                 r_userName = user_name,
                 r_pageStudyRecordDTOList = page_study_record_dto_list\<rparr>, amb'))"



definition first_pass_record :: "CoursewarePage \<Rightarrow> PageStudyRecordDTO" where
  "first_pass_record page_info =
     \<lparr>p_pageid = page_relation_id page_info, p_studyTime = 0, p_score = 0,
      p_coursepageId = None, p_videos = [], p_questions = []\<rparr>"

section \<open>Orchestrator (\<open>courseware_handler\<close> in \<open>CoursewareManager.__start_courseware\<close>)\<close>

text \<open>
  The handler works on the settings \<open>study_time\<close> and \<open>sleep_time\<close> of the
  configuration and talks to the course API. The three API operations it calls are
  not among the sources; their results are parameters of the model, one stream per
  operation, consumed call by call: \<open>initialize_section\<close> yields the start time stamp
  or nothing, \<open>watch_video_behavior\<close> a dict from video ids to flags,
  \<open>sync_study_record\<close> a flag. What the handler does is recorded as a trace.
\<close>

record HandlerConfig =
  user_info_name :: string
  study_time :: StudyTime
  sleep_time :: rat

record World =
  ambient :: Ambient
  initialize_results :: "int option stream"
  watch_results :: "(int \<times> bool) list stream"
  sync_results :: "bool stream"

datatype event =
    InitSection int
  | WatchVideo int
  | Submit SyncStudyRecordAPIRequest
  | Sleep rat
  | Info string
  | Warn string
  | Success string

text \<open>
  The \<open>while True\<close> loop that builds and submits the report of one section. \<open>retry\<close>
  starts at 0. The test \<open>retry >= 3\<close> comes after the submission and before the
  look at its result.
\<close>

function submit_loop ::
  "HandlerConfig \<Rightarrow> int \<Rightarrow> CoursewareSection \<Rightarrow> bool \<Rightarrow> int \<Rightarrow> World \<Rightarrow> event list \<times> World" where
  "submit_loop cfg study_start_time section_info is_first retry w =
     (case build_sync_study_record_request study_start_time section_info (user_info_name cfg)
             (study_time cfg) is_first (ambient w) of
        (None, amb') \<Rightarrow> ([Warn ''build failed, skip''], w\<lparr>ambient := amb'\<rparr>)
      | (Some study_record_info, amb') \<Rightarrow>
          (let sync_status = shd (sync_results w);
               w' = w\<lparr>ambient := amb', sync_results := stl (sync_results w)\<rparr>
           in if retry \<ge> 3
              then ([Info ''submit'', Submit study_record_info, Warn ''retry failed, skip''], w')
              else if \<not> sync_status
              then (case submit_loop cfg study_start_time section_info is_first (retry + 1) w' of
                      (trace, w'') \<Rightarrow>
                        (Info ''submit'' # Submit study_record_info # Warn ''submit failed'' #
                           Sleep 1 # trace, w''))
              else ([Info ''submit'', Submit study_record_info, Success ''submit ok''], w')))"
  by pat_completeness auto
termination
  by (relation "measure (\<lambda>(cfg, t, s, f, retry, w). nat (3 - retry))") auto

declare submit_loop.simps [simp del]

text \<open>
  The block for the videos of one page on the second pass: one \<open>watch_video_behavior\<close>
  call per video element, the results merged into one dict, then per video element a
  lookup in that dict (a \<open>KeyError\<close> when the id is missing, which leaves the handler),
  a log record and a sleep of 0.3 seconds. The flag of the result tells whether the
  block ended without exception.
\<close>

fun gather_watch ::
  "Element list \<Rightarrow> (int \<times> bool) list stream \<Rightarrow>
   event list \<times> (int \<times> bool) list list \<times> (int \<times> bool) list stream" where
  "gather_watch [] results = ([], [], results)"
| "gather_watch (ElementVideo video_id video_length # rest) results =
     (case gather_watch rest (stl results) of
        (trace, rs, results') \<Rightarrow> (WatchVideo video_id # trace, shd results # rs, results'))"
| "gather_watch (element # rest) results = gather_watch rest results"

definition parse_watch :: "(int \<times> bool) list list \<Rightarrow> (int \<times> bool) list" where
  "parse_watch rs =
     fold (\<lambda>result parsed. fold (\<lambda>(video_id, watch_status). dict_set video_id watch_status)
                               result parsed) rs []"

fun report_watch :: "Element list \<Rightarrow> (int \<times> bool) list \<Rightarrow> event list \<times> bool" where
  "report_watch [] parsed = ([], True)"
| "report_watch (ElementVideo video_id video_length # rest) parsed =
     (case map_of parsed video_id of
        None \<Rightarrow> ([], False)
      | Some watch_status \<Rightarrow>
          (case report_watch rest parsed of
             (trace, ok) \<Rightarrow>
               ((if \<not> watch_status then Warn ''watch failed'' else Success ''watch ok'') #
                  Sleep (3 / 10) # trace, ok)))"
| "report_watch (element # rest) parsed = report_watch rest parsed"

fun watch_pages ::
  "(int \<times> CoursewarePage) list \<Rightarrow> World \<Rightarrow> event list \<times> bool \<times> World" where
  "watch_pages [] w = ([], True, w)"
| "watch_pages ((pid, page_info) # rest) w =
     (if page_content_type page_info = 6 then
        (case gather_watch (elements page_info) (watch_results w) of
           (sent, rs, results') \<Rightarrow>
             (case report_watch (elements page_info) (parse_watch rs) of
                (trace, ok) \<Rightarrow>
                  (if \<not> ok then (sent @ trace, False, w\<lparr>watch_results := results'\<rparr>)
                   else (case watch_pages rest (w\<lparr>watch_results := results'\<rparr>) of
                           (trace', ok', w') \<Rightarrow> (sent @ trace @ trace', ok', w')))))
      else watch_pages rest w)"

text \<open>
  The loop over the sections of a chapter and the loop over the chapters. A section
  whose initialisation yields nothing (or 0) is skipped. The flag of the result is
  \<open>False\<close> when an exception left the handler.
\<close>

fun handle_sections ::
  "HandlerConfig \<Rightarrow> bool \<Rightarrow> (int \<times> CoursewareSection) list \<Rightarrow> World \<Rightarrow>
   event list \<times> bool \<times> World" where
  "handle_sections cfg is_first [] w = ([], True, w)"
| "handle_sections cfg is_first ((sid, section_info) # rest) w =
     (let study_start_time = shd (initialize_results w);
          w1 = w\<lparr>initialize_results := stl (initialize_results w)\<rparr>
      in case study_start_time of
           None \<Rightarrow>
             (case handle_sections cfg is_first rest w1 of
                (trace, ok, w') \<Rightarrow> (InitSection sid # Warn ''init failed, skip'' # trace, ok, w'))
         | Some t \<Rightarrow>
             if t = 0 then
               (case handle_sections cfg is_first rest w1 of
                  (trace, ok, w') \<Rightarrow>
                    (InitSection sid # Warn ''init failed, skip'' # trace, ok, w'))
             else
               (case (if \<not> is_first then watch_pages (pages section_info) w1
                      else ([], True, w1)) of
                  (watched, ok, w2) \<Rightarrow>
                    if \<not> ok then (InitSection sid # watched, False, w2)
                    else
                      (case submit_loop cfg t section_info is_first 0 w2 of
                         (submitted, w3) \<Rightarrow>
                           (case handle_sections cfg is_first rest w3 of
                              (trace, ok', w') \<Rightarrow>
                                (InitSection sid # watched @ Info ''build'' # submitted @
                                   (if \<not> is_first then [Sleep (sleep_time cfg)] else []) @ trace,
                                 ok', w')))))"

fun courseware_handler ::
  "HandlerConfig \<Rightarrow> bool \<Rightarrow> (int \<times> CoursewareChapter) list \<Rightarrow> World \<Rightarrow>
   event list \<times> bool \<times> World" where
  "courseware_handler cfg is_first [] w = ([], True, w)"
| "courseware_handler cfg is_first ((cid, chapter_info) # rest) w =
     (case handle_sections cfg is_first (sections chapter_info) w of
        (trace, ok, w') \<Rightarrow>
          if \<not> ok then (Info ''chapter'' # trace, False, w')
          else (case courseware_handler cfg is_first rest w' of
                  (trace', ok', w'') \<Rightarrow> (Info ''chapter'' # trace @ trace', ok', w'')))"

text \<open>
  Notions used to state the claim about the loop: the trace of one failed attempt,
  the number of submissions in a trace, and the sections whose initialisation a trace
  records.
\<close>

definition failed_attempt :: "SyncStudyRecordAPIRequest \<Rightarrow> event list" where
  "failed_attempt req = [Info ''submit'', Submit req, Warn ''submit failed'', Sleep 1]"

fun attempts :: "event list \<Rightarrow> nat" where
  "attempts [] = 0"
| "attempts (Submit req # rest) = Suc (attempts rest)"
| "attempts (e # rest) = attempts rest"

fun inits :: "event list \<Rightarrow> int list" where
  "inits [] = []"
| "inits (InitSection sid # rest) = sid # inits rest"
| "inits (e # rest) = inits rest"

section \<open>Example inputs\<close>

text \<open>
  Concrete trees used to evaluate the definitions. \<open>ex_course\<close> has one textbook with
  one chapter holding two sections: section 30 holds only a completed page, section 31
  holds a completed and an open page. \<open>ex_only_complete\<close> is the cascade scenario of
  the specification: a single page, completed, under one section, chapter and textbook.
\<close>

definition ex_page_done :: CoursewarePage where
  "ex_page_done = \<lparr>page_id = 40, page_relation_id = 400, page_name = ''p40'',
     page_content_type = 5, is_complete = True, elements = []\<rparr>"

definition ex_page_open :: CoursewarePage where
  "ex_page_open = \<lparr>page_id = 41, page_relation_id = 410, page_name = ''p41'',
     page_content_type = 6, is_complete = False, elements = [ElementVideo 7 600]\<rparr>"

definition ex_section_done :: CoursewareSection where
  "ex_section_done = \<lparr>section_id = 30, section_name = ''s30'', pages = [(40, ex_page_done)]\<rparr>"

definition ex_section_mixed :: CoursewareSection where
  "ex_section_mixed = \<lparr>section_id = 31, section_name = ''s31'',
     pages = [(40, ex_page_done), (41, ex_page_open)]\<rparr>"

definition ex_chapter :: CoursewareChapter where
  "ex_chapter = \<lparr>chapter_id = 20, chapter_name = ''c20'',
     sections = [(30, ex_section_done), (31, ex_section_mixed)]\<rparr>"

definition ex_textbook :: ModelTextbook where
  "ex_textbook = \<lparr>textbook_id = 10, textbook_name = ''t10'', status = 1, limit = 0,
     chapters = [(20, ex_chapter)]\<rparr>"

definition ex_course :: ModelCourse where
  "ex_course = \<lparr>course_id = 1, course_name = ''course'', class_id = 2, class_user_id = 3,
     textbooks = [(10, ex_textbook)]\<rparr>"

definition ex_only_complete :: ModelCourse where
  "ex_only_complete = \<lparr>course_id = 1, course_name = ''course'', class_id = 2,
     class_user_id = 3,
     textbooks = [(10, \<lparr>textbook_id = 10, textbook_name = ''t10'', status = 1, limit = 0,
       chapters = [(20, \<lparr>chapter_id = 20, chapter_name = ''c20'',
         sections = [(30, ex_section_done)]\<rparr>)]\<rparr>)]\<rparr>"

lemmas ex_tree_defs = ex_page_done_def ex_page_open_def ex_section_done_def
  ex_section_mixed_def ex_chapter_def ex_textbook_def ex_course_def ex_only_complete_def

lemmas prune_defs = course_prune_def textbook_prune_def chapter_prune_def section_prune_def

definition ex_record :: StudyRecordAPIResponse where
  "ex_record = \<lparr>node_id = 20, item_id = 31, pageStudyRecordDTOList =
     [\<lparr>pageid = 410, complete = 1\<rparr>, \<lparr>pageid = 41, complete = 0\<rparr>]\<rparr>"

definition ex_record_twice :: StudyRecordAPIResponse where
  "ex_record_twice = \<lparr>node_id = 20, item_id = 31, pageStudyRecordDTOList =
     [\<lparr>pageid = 410, complete = 1\<rparr>, \<lparr>pageid = 410, complete = 0\<rparr>]\<rparr>"








definition ex_config :: StudyTime where
  "ex_config = \<lparr>question = \<lparr>min' = 180, max' = 360\<rparr>,
                document = \<lparr>min' = 180, max' = 360\<rparr>,
                content' = \<lparr>min' = 180, max' = 360\<rparr>\<rparr>"

definition ex_ambient :: Ambient where
  "ex_ambient = \<lparr>randint_source = sconst 0, uniform_source = sconst (1 / 8),
                 clock = sconst (6800000003 / 4)\<rparr>"

definition ex_page_docs :: CoursewarePage where
  "ex_page_docs = \<lparr>page_id = 42, page_relation_id = 420, page_name = ''p42'',
     page_content_type = 5, is_complete = False,
     elements = replicate 21 (ElementDocumen ''d'')\<rparr>"

definition ex_page_two_docs :: CoursewarePage where
  "ex_page_two_docs = \<lparr>page_id = 43, page_relation_id = 430, page_name = ''p43'',
     page_content_type = 5, is_complete = False,
     elements = [ElementContent ''c'', ElementDocumen ''d'']\<rparr>"

definition ex_handler_config :: HandlerConfig where
  "ex_handler_config = \<lparr>user_info_name = ''name'', study_time = ex_config, sleep_time = 1\<rparr>"

definition ex_world_down :: World where
  "ex_world_down = \<lparr>ambient = ex_ambient, initialize_results = sconst (Some 5),
     watch_results = sconst [], sync_results = sconst False\<rparr>"

definition ex_request :: SyncStudyRecordAPIRequest where
  "ex_request = \<lparr>r_itemid = 30, r_studyStartTime = 5, r_userName = ''name'',
     r_pageStudyRecordDTOList =
       [\<lparr>p_pageid = 400, p_studyTime = 0, p_score = 0, p_coursepageId = None,
         p_videos = [], p_questions = []\<rparr>]\<rparr>"

section \<open>Pruning: helper lemmas\<close>

lemma prune_pages_idem: "prune_pages (prune_pages ps) = prune_pages ps"
  by (induction ps rule: prune_pages.induct) simp_all

lemma prune_pages_incomplete: "(pid, p) \<in> set (prune_pages ps) \<Longrightarrow> \<not> is_complete p"
  by (induction ps rule: prune_pages.induct) (auto split: if_splits)

lemma section_prune_idem: "section_prune (section_prune s) = section_prune s"
  by (simp add: section_prune_def prune_pages_idem)

lemma prune_sections_idem:
  "prune_sections rc (prune_sections rc ss) = prune_sections rc ss"
  by (induction rc ss rule: prune_sections.induct)
     (simp_all add: Let_def section_prune_idem)

lemma prune_sections_nonempty:
  "(sid, s) \<in> set (prune_sections rc ss) \<Longrightarrow> pages s \<noteq> []"
  by (induction rc ss rule: prune_sections.induct) (auto simp: Let_def split: if_splits)

lemma prune_sections_incomplete:
  "(sid, s) \<in> set (prune_sections True ss) \<Longrightarrow> (pid, p) \<in> set (pages s) \<Longrightarrow> \<not> is_complete p"
  by (induction "True" ss rule: prune_sections.induct)
     (auto simp: Let_def section_prune_def split: if_splits dest: prune_pages_incomplete)

lemma chapter_prune_idem: "chapter_prune rc (chapter_prune rc c) = chapter_prune rc c"
  by (simp add: chapter_prune_def prune_sections_idem)

lemma prune_chapters_idem:
  "prune_chapters rc (prune_chapters rc cs) = prune_chapters rc cs"
  by (induction rc cs rule: prune_chapters.induct)
     (simp_all add: Let_def chapter_prune_idem)

lemma prune_chapters_nonempty:
  "(cid, c) \<in> set (prune_chapters rc cs) \<Longrightarrow> sections c \<noteq> []"
  by (induction rc cs rule: prune_chapters.induct) (auto simp: Let_def split: if_splits)

lemma prune_chapters_sections:
  "(cid, c) \<in> set (prune_chapters rc cs) \<Longrightarrow>
   \<exists>c0. (cid, c0) \<in> set cs \<and> sections c = prune_sections rc (sections c0)"
  by (induction rc cs rule: prune_chapters.induct)
     (auto simp: Let_def chapter_prune_def split: if_splits)

lemma textbook_prune_idem: "textbook_prune rc (textbook_prune rc t) = textbook_prune rc t"
  by (simp add: textbook_prune_def prune_chapters_idem)

lemma prune_textbooks_idem:
  "prune_textbooks rc (prune_textbooks rc ts) = prune_textbooks rc ts"
  by (induction rc ts rule: prune_textbooks.induct)
     (simp_all add: Let_def textbook_prune_idem)

lemma prune_textbooks_nonempty:
  "(tid, t) \<in> set (prune_textbooks rc ts) \<Longrightarrow> chapters t \<noteq> []"
  by (induction rc ts rule: prune_textbooks.induct) (auto simp: Let_def split: if_splits)

lemma prune_textbooks_chapters:
  "(tid, t) \<in> set (prune_textbooks rc ts) \<Longrightarrow>
   \<exists>t0. (tid, t0) \<in> set ts \<and> chapters t = prune_chapters rc (chapters t0)"
  by (induction rc ts rule: prune_textbooks.induct)
     (auto simp: Let_def textbook_prune_def split: if_splits)

lemma course_prune_idem: "course_prune rc (course_prune rc c) = course_prune rc c"
  by (simp add: course_prune_def prune_textbooks_idem)

lemma map_of_prune_pages:
  "map_of ps pid = Some p \<Longrightarrow> \<not> is_complete p \<Longrightarrow> map_of (prune_pages ps) pid = Some p"
  by (induction ps rule: prune_pages.induct) (auto split: if_splits)

lemma map_of_prune_sections:
  "map_of ss sid = Some s \<Longrightarrow>
   pages (if rc then section_prune s else s) \<noteq> [] \<Longrightarrow>
   map_of (prune_sections rc ss) sid = Some (if rc then section_prune s else s)"
  by (induction rc ss rule: prune_sections.induct) (auto simp: Let_def split: if_splits)

lemma map_of_prune_chapters:
  "map_of cs cid = Some c \<Longrightarrow> sections (chapter_prune rc c) \<noteq> [] \<Longrightarrow>
   map_of (prune_chapters rc cs) cid = Some (chapter_prune rc c)"
  by (induction rc cs rule: prune_chapters.induct) (auto simp: Let_def split: if_splits)

lemma map_of_prune_textbooks:
  "map_of ts tid = Some t \<Longrightarrow> chapters (textbook_prune rc t) \<noteq> [] \<Longrightarrow>
   map_of (prune_textbooks rc ts) tid = Some (textbook_prune rc t)"
  by (induction rc ts rule: prune_textbooks.induct) (auto simp: Let_def split: if_splits)

lemma map_of_Some_nonempty: "map_of xs k = Some v \<Longrightarrow> xs \<noteq> []"
  by auto


section \<open>Pruning: the claims\<close>

text \<open>
  C5. \<open>prune\<close> with \<open>remove_complete = True\<close> is idempotent on every course tree (and so
  it is for either value of the flag). After \<open>prune\<close> no container with zero children
  is left at any level: every remaining textbook has a chapter, every remaining chapter
  a section, every remaining section a page; and when \<open>remove_complete\<close> is true no
  completed page is left.
\<close>

theorem prune_idempotent_cascade:
  "course_prune True (course_prune True c) = course_prune True c \<and>
   course_prune remove_complete (course_prune remove_complete c) = course_prune remove_complete c \<and>
   (\<forall>(tid, t) \<in> set (textbooks (course_prune remove_complete c)).
      chapters t \<noteq> [] \<and>
      (\<forall>(cid, ch) \<in> set (chapters t).
         sections ch \<noteq> [] \<and>
         (\<forall>(sid, s) \<in> set (sections ch).
            pages s \<noteq> [] \<and>
            (remove_complete \<longrightarrow> (\<forall>(pid, p) \<in> set (pages s). \<not> is_complete p)))))"
proof (intro conjI)
  show "course_prune True (course_prune True c) = course_prune True c"
    by (rule course_prune_idem)
  show "course_prune remove_complete (course_prune remove_complete c) = course_prune remove_complete c"
    by (rule course_prune_idem)
  show "\<forall>(tid, t) \<in> set (textbooks (course_prune remove_complete c)).
      chapters t \<noteq> [] \<and>
      (\<forall>(cid, ch) \<in> set (chapters t).
         sections ch \<noteq> [] \<and>
         (\<forall>(sid, s) \<in> set (sections ch).
            pages s \<noteq> [] \<and>
            (remove_complete \<longrightarrow> (\<forall>(pid, p) \<in> set (pages s). \<not> is_complete p))))"
  proof (clarify, intro conjI)
    fix tid t
    assume t: "(tid, t) \<in> set (textbooks (course_prune remove_complete c))"
    then have t': "(tid, t) \<in> set (prune_textbooks remove_complete (textbooks c))"
      by (simp add: course_prune_def)
    then show "chapters t \<noteq> []" by (rule prune_textbooks_nonempty)
    from t' obtain t0 :: ModelTextbook where t0: "chapters t = prune_chapters remove_complete (chapters t0)"
      using prune_textbooks_chapters by blast
    show "\<forall>(cid, ch) \<in> set (chapters t).
         sections ch \<noteq> [] \<and>
         (\<forall>(sid, s) \<in> set (sections ch).
            pages s \<noteq> [] \<and>
            (remove_complete \<longrightarrow> (\<forall>(pid, p) \<in> set (pages s). \<not> is_complete p)))"
    proof (clarify, intro conjI)
      fix cid ch
      assume "(cid, ch) \<in> set (chapters t)"
      then have ch: "(cid, ch) \<in> set (prune_chapters remove_complete (chapters t0))"
        by (simp add: t0)
      then show "sections ch \<noteq> []" by (rule prune_chapters_nonempty)
      from ch obtain c0 :: CoursewareChapter where c0: "sections ch = prune_sections remove_complete (sections c0)"
        using prune_chapters_sections by blast
      show "\<forall>(sid, s) \<in> set (sections ch).
            pages s \<noteq> [] \<and>
            (remove_complete \<longrightarrow> (\<forall>(pid, p) \<in> set (pages s). \<not> is_complete p))"
      proof (clarify, intro conjI impI)
        fix sid s
        assume "(sid, s) \<in> set (sections ch)"
        then have s: "(sid, s) \<in> set (prune_sections remove_complete (sections c0))"
          by (simp add: c0)
        then show "pages s \<noteq> []" by (rule prune_sections_nonempty)
        assume remove_complete
        with s show "\<forall>(pid, p) \<in> set (pages s). \<not> is_complete p"
          by (auto dest: prune_sections_incomplete)
      qed
    qed
  qed
qed

theorem prune_idempotent_cascade_witness:
  "course_prune True (course_prune True ex_course) = course_prune True ex_course \<and>
   textbooks (course_prune True ex_course) =
     [(10, ex_textbook\<lparr>chapters := [(20, ex_chapter\<lparr>sections :=
        [(31, ex_section_mixed\<lparr>pages := [(41, ex_page_open)]\<rparr>)]\<rparr>)]\<rparr>)] \<and>
   textbooks (course_prune True ex_only_complete) = [] \<and>
   textbooks (course_prune False ex_only_complete) = textbooks ex_only_complete"
  using prune_idempotent_cascade [of ex_course True]
  by (simp add: prune_defs ex_tree_defs)

text \<open>
  C10. \<open>prune\<close> never removes an open page: for both values of \<open>remove_complete\<close>, a
  page with \<open>is_complete = False\<close> that is reached through textbook \<open>tid\<close>, chapter
  \<open>cid\<close>, section \<open>sid\<close> and page key \<open>pid\<close> before \<open>prune\<close> is reached through the
  same four keys afterwards, so its section, chapter and textbook are kept as well.
\<close>

theorem prune_keeps_incomplete_pages:
  assumes t: "map_of (textbooks c) tid = Some t"
    and ch: "map_of (chapters t) cid = Some ch"
    and s: "map_of (sections ch) sid = Some s"
    and p: "map_of (pages s) pid = Some p"
    and inc: "\<not> is_complete p"
  shows "\<exists>t' ch' s'.
           map_of (textbooks (course_prune remove_complete c)) tid = Some t' \<and>
           map_of (chapters t') cid = Some ch' \<and>
           map_of (sections ch') sid = Some s' \<and>
           map_of (pages s') pid = Some p"
proof -
  define s' where "s' = (if remove_complete then section_prune s else s)"
  have p': "map_of (pages s') pid = Some p"
    using p inc by (simp add: s'_def section_prune_def map_of_prune_pages)
  then have "pages s' \<noteq> []" by (rule map_of_Some_nonempty)
  then have s'': "map_of (sections (chapter_prune remove_complete ch)) sid = Some s'"
    using s unfolding s'_def chapter_prune_def by (simp add: map_of_prune_sections)
  then have "sections (chapter_prune remove_complete ch) \<noteq> []"
    by (rule map_of_Some_nonempty)
  then have ch': "map_of (chapters (textbook_prune remove_complete t)) cid
      = Some (chapter_prune remove_complete ch)"
    using ch unfolding textbook_prune_def by (simp add: map_of_prune_chapters)
  then have "chapters (textbook_prune remove_complete t) \<noteq> []"
    by (rule map_of_Some_nonempty)
  then have "map_of (textbooks (course_prune remove_complete c)) tid
      = Some (textbook_prune remove_complete t)"
    using t unfolding course_prune_def by (simp add: map_of_prune_textbooks)
  with ch' s'' p' show ?thesis by blast
qed


theorem prune_keeps_incomplete_pages_witness:
  "map_of (textbooks ex_course) 10 = Some ex_textbook \<and>
   map_of (chapters ex_textbook) 20 = Some ex_chapter \<and>
   map_of (sections ex_chapter) 31 = Some ex_section_mixed \<and>
   map_of (pages ex_section_mixed) 41 = Some ex_page_open \<and>
   \<not> is_complete ex_page_open \<and>
   (\<exists>t' ch' s'.
      map_of (textbooks (course_prune True ex_course)) 10 = Some t' \<and>
      map_of (chapters t') 20 = Some ch' \<and>
      map_of (sections ch') 31 = Some s' \<and>
      map_of (pages s') 41 = Some ex_page_open)"
proof -
  have t: "map_of (textbooks ex_course) 10 = Some ex_textbook"
    by (simp add: ex_course_def)
  have ch: "map_of (chapters ex_textbook) 20 = Some ex_chapter"
    by (simp add: ex_textbook_def)
  have s: "map_of (sections ex_chapter) 31 = Some ex_section_mixed"
    by (simp add: ex_chapter_def)
  have p: "map_of (pages ex_section_mixed) 41 = Some ex_page_open"
    by (simp add: ex_section_mixed_def)
  have inc: "\<not> is_complete ex_page_open"
    by (simp add: ex_page_open_def)
  from prune_keeps_incomplete_pages [OF t ch s p inc, of True] t ch s p inc
  show ?thesis by blast
qed

section \<open>Parsers: helper lemmas\<close>

lemma mark_pages_map:
  "mark_pages rid f pgs =
     map (\<lambda>(k, p). (k, if page_relation_id p = rid then p\<lparr>is_complete := (f \<noteq> 0)\<rparr> else p)) pgs"
  by (induction pgs) auto

lemma last_flag_Nil: "last_flag rid [] = None"
  by (simp add: last_flag_def)

lemma last_flag_Cons:
  "last_flag rid (r # rs) =
     (case last_flag rid rs of
        Some f \<Rightarrow> Some f
      | None \<Rightarrow> if pageid r = rid then Some (complete r) else None)"
  by (simp add: last_flag_def Let_def)

lemma apply_page_records_map:
  "apply_page_records rs pgs = map (\<lambda>(k, p). (k, marked_page rs p)) pgs"
proof (induction rs arbitrary: pgs)
  case Nil
  then show ?case by (simp add: marked_page_def last_flag_Nil)
next
  case (Cons r rs)
  show ?case
    by (simp add: Cons.IH mark_pages_map marked_page_def last_flag_Cons case_prod_unfold
        split: option.splits)
qed

lemma map_of_dict_set: "map_of (dict_set k v d) k = Some v"
  by (induction d) auto













lemma last_flag_None_iff: "(last_flag rid rs = None) = (rid \<notin> pageid ` set rs)"
  by (auto simp: last_flag_def Let_def filter_empty_conv)

lemma last_flag_snoc: "last_flag (pageid r) (rs @ [r]) = Some (complete r)"
  by (simp add: last_flag_def Let_def)

section \<open>Parsers: the claims\<close>

text \<open>
  C1 (as amended). When the textbook, the chapter \<open>node_id\<close> and the section \<open>item_id\<close> of
  a study record are found in the tree, \<open>parse_study_record_info\<close> returns \<open>True\<close> and
  changes only the pages of that section: each page is matched by its
  \<open>page_relation_id\<close> (the dict key and \<open>page_id\<close> play no part) and its
  \<open>is_complete\<close> is set from the completion flag of the last record entry that carries
  this relation id (true for a flag other than 0, so for flag 1). A page whose relation
  id does not occur in the record is left as it was. As the claim is stated it fails: a
  relation id may occur with flag 1 and again later with flag 0, and the later entry
  wins.
\<close>

theorem study_record_marks_by_relation_id:
  assumes tb: "map_of (textbooks c) tid = Some tb"
    and ch: "map_of (chapters tb) (node_id r) = Some ch"
    and sec: "map_of (sections ch) (item_id r) = Some sec"
  shows "(\<exists>c' tb' ch' sec'.
           parse_study_record_info c tid r =
             (True, c', [LogDebug ''parse study record'', LogDebug ''parse study record ok'']) \<and>
           c' = store_pages c tid tb (node_id r) ch (item_id r) sec (pages sec') \<and>
           map_of (textbooks c') tid = Some tb' \<and>
           map_of (chapters tb') (node_id r) = Some ch' \<and>
           map_of (sections ch') (item_id r) = Some sec' \<and>
           pages sec' =
             map (\<lambda>(k, p). (k, marked_page (pageStudyRecordDTOList r) p)) (pages sec)) \<and>
         (page_relation_id p \<notin> pageid ` set (pageStudyRecordDTOList r) \<longrightarrow>
            marked_page (pageStudyRecordDTOList r) p = p) \<and>
         (last_flag (page_relation_id p) (pageStudyRecordDTOList r) = Some flag \<longrightarrow>
            marked_page (pageStudyRecordDTOList r) p = p\<lparr>is_complete := (flag \<noteq> 0)\<rparr>) \<and>
         last_flag (pageid e) (rs @ [e]) = Some (complete e)"
proof (intro conjI impI)
  show "\<exists>c' tb' ch' sec'.
           parse_study_record_info c tid r =
             (True, c', [LogDebug ''parse study record'', LogDebug ''parse study record ok'']) \<and>
           c' = store_pages c tid tb (node_id r) ch (item_id r) sec (pages sec') \<and>
           map_of (textbooks c') tid = Some tb' \<and>
           map_of (chapters tb') (node_id r) = Some ch' \<and>
           map_of (sections ch') (item_id r) = Some sec' \<and>
           pages sec' =
             map (\<lambda>(k, p). (k, marked_page (pageStudyRecordDTOList r) p)) (pages sec)"
    using tb ch sec
    by (simp add: parse_study_record_info_def store_pages_def map_of_dict_set
        apply_page_records_map)
  show "marked_page (pageStudyRecordDTOList r) p = p"
    if "page_relation_id p \<notin> pageid ` set (pageStudyRecordDTOList r)"
    using that last_flag_None_iff [of "page_relation_id p" "pageStudyRecordDTOList r"]
    by (simp add: marked_page_def)
  show "marked_page (pageStudyRecordDTOList r) p = p\<lparr>is_complete := (flag \<noteq> 0)\<rparr>"
    if "last_flag (page_relation_id p) (pageStudyRecordDTOList r) = Some flag"
    using that by (simp add: marked_page_def)
  show "last_flag (pageid e) (rs @ [e]) = Some (complete e)"
    by (rule last_flag_snoc)
qed

theorem study_record_marks_by_relation_id_witness:
  "map_of (textbooks ex_course) 10 = Some ex_textbook \<and>
   map_of (chapters ex_textbook) (node_id ex_record) = Some ex_chapter \<and>
   map_of (sections ex_chapter) (item_id ex_record) = Some ex_section_mixed \<and>
   parse_study_record_info ex_course 10 ex_record =
     (True,
      ex_course\<lparr>textbooks := [(10, ex_textbook\<lparr>chapters := [(20, ex_chapter\<lparr>sections :=
        [(30, ex_section_done),
         (31, ex_section_mixed\<lparr>pages :=
            [(40, ex_page_done), (41, ex_page_open\<lparr>is_complete := True\<rparr>)]\<rparr>)]\<rparr>)]\<rparr>)]\<rparr>,
      [LogDebug ''parse study record'', LogDebug ''parse study record ok'']) \<and>
   page_relation_id ex_page_done \<notin> pageid ` set (pageStudyRecordDTOList ex_record) \<and>
   marked_page (pageStudyRecordDTOList ex_record) ex_page_done = ex_page_done \<and>
   last_flag (page_relation_id ex_page_open) (pageStudyRecordDTOList ex_record) = Some 1 \<and>
   marked_page (pageStudyRecordDTOList ex_record) ex_page_open
     = ex_page_open\<lparr>is_complete := True\<rparr>"
proof -
  have tb: "map_of (textbooks ex_course) 10 = Some ex_textbook"
    by (simp add: ex_course_def)
  have ch: "map_of (chapters ex_textbook) (node_id ex_record) = Some ex_chapter"
    by (simp add: ex_textbook_def ex_record_def)
  have sec: "map_of (sections ex_chapter) (item_id ex_record) = Some ex_section_mixed"
    by (simp add: ex_chapter_def ex_record_def)
  have rel: "page_relation_id ex_page_done \<notin> pageid ` set (pageStudyRecordDTOList ex_record)"
    by (simp add: ex_page_done_def ex_record_def)
  have lf: "last_flag (page_relation_id ex_page_open) (pageStudyRecordDTOList ex_record) = Some 1"
    by (simp add: last_flag_def ex_page_open_def ex_record_def)
  have run: "parse_study_record_info ex_course 10 ex_record =
     (True,
      ex_course\<lparr>textbooks := [(10, ex_textbook\<lparr>chapters := [(20, ex_chapter\<lparr>sections :=
        [(30, ex_section_done),
         (31, ex_section_mixed\<lparr>pages :=
            [(40, ex_page_done), (41, ex_page_open\<lparr>is_complete := True\<rparr>)]\<rparr>)]\<rparr>)]\<rparr>)]\<rparr>,
      [LogDebug ''parse study record'', LogDebug ''parse study record ok''])"
    by (simp add: parse_study_record_info_def store_pages_def ex_tree_defs ex_record_def)
  from study_record_marks_by_relation_id [OF tb ch sec, of ex_page_done 1 undefined "[]"]
    study_record_marks_by_relation_id [OF tb ch sec, of ex_page_open 1 undefined "[]"]
    tb ch sec rel lf run
  show ?thesis by simp
qed

theorem study_record_flag_one_counterexample:
  "\<lparr>pageid = 410, complete = 1\<rparr> \<in> set (pageStudyRecordDTOList ex_record_twice) \<and>
   map_of (textbooks ex_course) 10 = Some ex_textbook \<and>
   map_of (chapters ex_textbook) (node_id ex_record_twice) = Some ex_chapter \<and>
   map_of (sections ex_chapter) (item_id ex_record_twice) = Some ex_section_mixed \<and>
   map_of (pages ex_section_mixed) 41 = Some ex_page_open \<and>
   page_relation_id ex_page_open = 410 \<and>
   \<not> is_complete ex_page_open \<and>
   parse_study_record_info ex_course 10 ex_record_twice =
     (True, ex_course, [LogDebug ''parse study record'', LogDebug ''parse study record ok''])"
  by (simp add: parse_study_record_info_def store_pages_def ex_tree_defs ex_record_twice_def)







section \<open>HTTP client: the claim\<close>





section \<open>Report builder: helper lemmas\<close>

lemma build_pages_first:
  "build_pages cfg True ps amb acc = (Some (acc @ map (\<lambda>(pid, page). first_pass_record page) ps), amb)"
  by (induction ps arbitrary: acc) (auto simp: build_page_def first_pass_record_def)

lemma randint_bounds: "a \<le> b \<Longrightarrow> \<exists>r. randint a b e = Some r \<and> a \<le> r \<and> r \<le> b"
proof -
  assume ab: "a \<le> b"
  then have pos: "0 < b - a + 1" by simp
  have lo: "0 \<le> int e mod (b - a + 1)" using pos by (rule pos_mod_sign)
  have "int e mod (b - a + 1) < b - a + 1" using pos by (rule pos_mod_bound)
  then have hi: "int e mod (b - a + 1) \<le> b - a" by linarith
  have "randint a b e = Some (a + int e mod (b - a + 1))"
    using ab by (simp add: randint_def)
  moreover have "a \<le> a + int e mod (b - a + 1)" using lo by linarith
  moreover have "a + int e mod (b - a + 1) \<le> b" using hi by linarith
  ultimately show ?thesis by blast
qed

lemma element_is_document_replicate:
  "element_is_document (replicate (Suc k) (ElementDocumen d))"
  by simp








section \<open>Report builder: the claims\<close>

text \<open>
  C9. With \<open>is_first = True\<close> the builder returns a report that holds one record per
  page of the section, in order, whatever the content type of the page; each record
  has \<open>studyTime = 0\<close> (and score 0, no video and no question records), and nothing is
  drawn from the random generator or read from the clock: the ambient sources come
  back as they went in.
\<close>

theorem first_pass_study_time_zero:
  "build_sync_study_record_request study_start_time section_info user_name cfg True amb =
     (Some \<lparr>r_itemid = section_id section_info,
            r_studyStartTime = study_start_time,
            r_userName = user_name,
            r_pageStudyRecordDTOList =
              map (\<lambda>(pid, page). first_pass_record page) (pages section_info)\<rparr>, amb) \<and>
   p_studyTime (first_pass_record page) = 0 \<and>
   p_videos (first_pass_record page) = [] \<and>
   p_questions (first_pass_record page) = [] \<and>
   p_pageid (first_pass_record page) = page_relation_id page"
  by (simp add: build_sync_study_record_request_def build_pages_first first_pass_record_def)

theorem first_pass_study_time_zero_witness:
  "build_sync_study_record_request 1700000000 ex_section_mixed ''name'' ex_config True ex_ambient =
     (Some \<lparr>r_itemid = 31, r_studyStartTime = 1700000000, r_userName = ''name'',
            r_pageStudyRecordDTOList =
              [\<lparr>p_pageid = 400, p_studyTime = 0, p_score = 0, p_coursepageId = None,
                p_videos = [], p_questions = []\<rparr>,
               \<lparr>p_pageid = 410, p_studyTime = 0, p_score = 0, p_coursepageId = None,
                p_videos = [], p_questions = []\<rparr>]\<rparr>, ex_ambient)"
  using first_pass_study_time_zero [of 1700000000 ex_section_mixed "''name''" ex_config ex_ambient]
  by (simp add: first_pass_record_def ex_tree_defs)

text \<open>
  C3 (as amended). On the second pass a page of content type 5 with \<open>n\<close> elements gets
  score 100 and a duration in the interval from \<open>min (minT * n) 3600\<close> to
  \<open>min (maxT * n) 3600\<close>, where \<open>minT\<close> and \<open>maxT\<close> are the bounds of the Document
  bucket when the page has a Document element and of the Content bucket otherwise, and
  \<open>minT \<le> maxT\<close>. The lower bound \<open>minT * n\<close> of the claim holds only while
  \<open>minT * n \<le> 3600\<close>: with the default bounds and 21 elements the duration is 3600,
  below \<open>180 * 21\<close>.
\<close>

theorem document_page_duration:
  assumes ct: "page_content_type page_info = 5"
    and bucket: "bucket = (if element_is_document (elements page_info)
                          then document cfg else content' cfg)"
    and le: "min' bucket \<le> max' bucket"
    and n: "n = int (length (elements page_info))"
  shows "\<exists>d amb'. build_page cfg False pid page_info amb = (Some [d], amb') \<and>
           p_pageid d = page_relation_id page_info \<and>
           p_score d = 100 \<and>
           min (min' bucket * n) 3600 \<le> p_studyTime d \<and>
           p_studyTime d \<le> min (max' bucket * n) 3600 \<and>
           (min' bucket * n \<le> 3600 \<longrightarrow> min' bucket * n \<le> p_studyTime d)"
proof -
  obtain r where r: "randint (min' bucket) (max' bucket) (shd (randint_source amb)) = Some r"
    and lo: "min' bucket \<le> r" and hi: "r \<le> max' bucket"
    using randint_bounds [OF le] by blast
  have n0: "0 \<le> n" by (simp add: n)
  have lo': "min' bucket * n \<le> r * n" using lo n0 by (rule mult_right_mono)
  have hi': "r * n \<le> max' bucket * n" using hi n0 by (rule mult_right_mono)
  have run: "build_page cfg False pid page_info amb =
      (Some [\<lparr>p_pageid = page_relation_id page_info,
              p_studyTime = min (r * n) 3600, p_score = 100,
              p_coursepageId = None, p_videos = [], p_questions = []\<rparr>],
       amb\<lparr>randint_source := stl (randint_source amb)\<rparr>)"
    using ct r unfolding bucket n
    by (simp add: build_page_def simulate_page_def Let_def)
  show ?thesis
    unfolding run using lo' hi' by auto
qed

theorem document_page_duration_witness:
  "page_content_type ex_page_two_docs = 5 \<and>
   document ex_config = (if element_is_document (elements ex_page_two_docs)
                         then document ex_config else content' ex_config) \<and>
   min' (document ex_config) \<le> max' (document ex_config) \<and>
   (2 :: int) = int (length (elements ex_page_two_docs)) \<and>
   fst (build_page ex_config False 43 ex_page_two_docs ex_ambient) =
     Some [\<lparr>p_pageid = 430, p_studyTime = 360, p_score = 100, p_coursepageId = None,
             p_videos = [], p_questions = []\<rparr>] \<and>
   min (min' (document ex_config) * 2) 3600 \<le> (360 :: int) \<and>
   (360 :: int) \<le> min (max' (document ex_config) * 2) 3600"
proof -
  have ct: "page_content_type ex_page_two_docs = 5"
    by (simp add: ex_page_two_docs_def)
  have bucket: "document ex_config = (if element_is_document (elements ex_page_two_docs)
                         then document ex_config else content' ex_config)"
    by (simp add: ex_page_two_docs_def)
  have le: "min' (document ex_config) \<le> max' (document ex_config)"
    by (simp add: ex_config_def)
  have n: "(2 :: int) = int (length (elements ex_page_two_docs))"
    by (simp add: ex_page_two_docs_def)
  have run: "fst (build_page ex_config False 43 ex_page_two_docs ex_ambient) =
     Some [\<lparr>p_pageid = 430, p_studyTime = 360, p_score = 100, p_coursepageId = None,
             p_videos = [], p_questions = []\<rparr>]"
    by (simp add: build_page_def simulate_page_def randint_def ex_page_two_docs_def
        ex_config_def ex_ambient_def)
  from document_page_duration [OF ct bucket le n, of 43 ex_ambient] run
  have "min (min' (document ex_config) * 2) 3600 \<le> (360 :: int) \<and>
        (360 :: int) \<le> min (max' (document ex_config) * 2) 3600"
    by auto
  with ct bucket le n run show ?thesis by blast
qed

theorem document_page_duration_counterexample:
  "page_content_type ex_page_docs = 5 \<and>
   int (length (elements ex_page_docs)) = 21 \<and>
   element_is_document (elements ex_page_docs) \<and>
   min' (document ex_config) = 180 \<and> max' (document ex_config) = 360 \<and>
   fst (build_page ex_config False 42 ex_page_docs ex_ambient) =
     Some [\<lparr>p_pageid = 420, p_studyTime = 3600, p_score = 100, p_coursepageId = None,
             p_videos = [], p_questions = []\<rparr>] \<and>
   \<not> (180 * 21 \<le> (3600 :: int))"
proof -
  have doc: "element_is_document (replicate 21 (ElementDocumen ''d''))"
    using element_is_document_replicate [of 20 "''d''"] by simp
  show ?thesis
    by (simp add: build_page_def simulate_page_def randint_def ex_page_docs_def
        ex_config_def ex_ambient_def doc)
qed




section \<open>Orchestrator: helper lemmas\<close>

lemma attempts_append: "attempts (xs @ ys) = attempts xs + attempts ys"
  by (induction xs rule: attempts.induct) simp_all

lemma inits_append: "inits (xs @ ys) = inits xs @ inits ys"
  by (induction xs rule: inits.induct) simp_all

lemma attempts_failed: "attempts (concat (map failed_attempt reqs)) = length reqs"
  by (induction reqs) (simp_all add: failed_attempt_def)

lemma inits_failed: "inits (concat (map failed_attempt reqs)) = []"
  by (induction reqs) (simp_all add: failed_attempt_def)

lemma submit_loop_shape:
  "retry \<le> 3 \<Longrightarrow>
   \<exists>reqs fin w'.
     submit_loop cfg t sec is_first retry w = (concat (map failed_attempt reqs) @ fin, w') \<and>
     int (length reqs) \<le> 3 - retry \<and>
     (fin = [Warn ''build failed, skip''] \<or>
      (\<exists>req. fin = [Info ''submit'', Submit req, Success ''submit ok'']) \<or>
      (\<exists>req. fin = [Info ''submit'', Submit req, Warn ''retry failed, skip''] \<and>
             int (length reqs) = 3 - retry))"
proof (induction cfg t sec is_first retry w rule: submit_loop.induct)
  case (1 cfg t sec is_first retry w)
  obtain built amb' where b: "build_sync_study_record_request t sec (user_info_name cfg)
      (study_time cfg) is_first (ambient w) = (built, amb')"
    by (cases "build_sync_study_record_request t sec (user_info_name cfg) (study_time cfg) is_first (ambient w)")
  show ?case
  proof (cases built)
    case None
    have "submit_loop cfg t sec is_first retry w =
        (concat (map failed_attempt []) @ [Warn ''build failed, skip''], w\<lparr>ambient := amb'\<rparr>)"
      by (subst submit_loop.simps) (simp add: b None)
    then show ?thesis using "1.prems" by - (rule exI [of _ "[]"], force)
  next
    case (Some req)
    define w1 where "w1 = w\<lparr>ambient := amb', sync_results := stl (sync_results w)\<rparr>"
    show ?thesis
    proof (cases "retry \<ge> 3")
      case True
      have "submit_loop cfg t sec is_first retry w =
          (concat (map failed_attempt []) @
             [Info ''submit'', Submit req, Warn ''retry failed, skip''], w1)"
        using True by (subst submit_loop.simps) (simp add: b Some w1_def)
      moreover have "retry = 3" using True "1.prems" by simp
      ultimately show ?thesis by - (rule exI [of _ "[]"], force)
    next
      case retry: False
      show ?thesis
      proof (cases "shd (sync_results w)")
        case True
        have "submit_loop cfg t sec is_first retry w =
            (concat (map failed_attempt []) @
               [Info ''submit'', Submit req, Success ''submit ok''], w1)"
          using True retry by (subst submit_loop.simps) (simp add: b Some w1_def)
        then show ?thesis using retry by - (rule exI [of _ "[]"], force)
      next
        case False
        have le: "retry + 1 \<le> 3" using retry by simp
        from "1.IH" [OF b [symmetric] Some refl w1_def [unfolded atomize_eq] retry _ le]
        have "\<exists>reqs fin w'.
           submit_loop cfg t sec is_first (retry + 1) w1 = (concat (map failed_attempt reqs) @ fin, w') \<and>
           int (length reqs) \<le> 3 - (retry + 1) \<and>
           (fin = [Warn ''build failed, skip''] \<or>
            (\<exists>req. fin = [Info ''submit'', Submit req, Success ''submit ok'']) \<or>
            (\<exists>req. fin = [Info ''submit'', Submit req, Warn ''retry failed, skip''] \<and>
                   int (length reqs) = 3 - (retry + 1)))"
          using False by simp
        then obtain reqs fin w' where
          run: "submit_loop cfg t sec is_first (retry + 1) w1 = (concat (map failed_attempt reqs) @ fin, w')"
          and len: "int (length reqs) \<le> 3 - (retry + 1)"
          and fin: "fin = [Warn ''build failed, skip''] \<or>
            (\<exists>req. fin = [Info ''submit'', Submit req, Success ''submit ok'']) \<or>
            (\<exists>req. fin = [Info ''submit'', Submit req, Warn ''retry failed, skip''] \<and>
                   int (length reqs) = 3 - (retry + 1))"
          by blast
        have "submit_loop cfg t sec is_first retry w =
            (concat (map failed_attempt (req # reqs)) @ fin, w')"
          using False retry run
          by (subst submit_loop.simps) (simp add: b Some w1_def failed_attempt_def)
        moreover have "int (length (req # reqs)) \<le> 3 - retry" using len by simp
        moreover have "fin = [Warn ''build failed, skip''] \<or>
            (\<exists>req. fin = [Info ''submit'', Submit req, Success ''submit ok'']) \<or>
            (\<exists>r. fin = [Info ''submit'', Submit r, Warn ''retry failed, skip''] \<and>
                   int (length (req # reqs)) = 3 - retry)"
          using fin by auto
        ultimately show ?thesis by blast
      qed
    qed
  qed
qed

lemma inits_gather_watch: "inits (fst (gather_watch es rs)) = []"
  by (induction es rs rule: gather_watch.induct) (auto split: prod.splits)

lemma inits_report_watch: "inits (fst (report_watch es parsed)) = []"
  by (induction es parsed rule: report_watch.induct) (auto split: prod.splits option.splits)

lemma inits_watch_pages: "inits (fst (watch_pages ps w)) = []"
proof (induction ps arbitrary: w)
  case Nil
  then show ?case by simp
next
  case (Cons entry rest)
  obtain pid page_info where entry: "entry = (pid, page_info)" by (cases entry)
  show ?case
  proof (cases "page_content_type page_info = 6")
    case False
    then show ?thesis using Cons.IH [of w] by (simp add: entry)
  next
    case True
    obtain sent rs results' where
      g: "gather_watch (elements page_info) (watch_results w) = (sent, rs, results')"
      by (cases "gather_watch (elements page_info) (watch_results w)")
    obtain trace ok where r: "report_watch (elements page_info) (parse_watch rs) = (trace, ok)"
      by (cases "report_watch (elements page_info) (parse_watch rs)")
    have s0: "inits sent = []"
      using inits_gather_watch [of "elements page_info" "watch_results w"] by (simp add: g)
    have t0: "inits trace = []"
      using inits_report_watch [of "elements page_info" "parse_watch rs"] by (simp add: r)
    show ?thesis
    proof (cases ok)
      case False
      then show ?thesis using True g r s0 t0 by (simp add: entry inits_append)
    next
      case ok: True
      obtain trace' ok' w' where
        rec: "watch_pages rest (w\<lparr>watch_results := results'\<rparr>) = (trace', ok', w')"
        by (cases "watch_pages rest (w\<lparr>watch_results := results'\<rparr>)")
      have "inits trace' = []"
        using Cons.IH [of "w\<lparr>watch_results := results'\<rparr>"] by (simp add: rec)
      then show ?thesis
        using True g r s0 t0 ok rec by (simp add: entry inits_append)
    qed
  qed
qed

lemma inits_submit_loop: "inits (fst (submit_loop cfg t sec is_first 0 w)) = []"
proof -
  from submit_loop_shape [of 0 cfg t sec is_first w]
  obtain reqs fin w' where
    run: "submit_loop cfg t sec is_first 0 w = (concat (map failed_attempt reqs) @ fin, w')"
    and fin: "fin = [Warn ''build failed, skip''] \<or>
      (\<exists>req. fin = [Info ''submit'', Submit req, Success ''submit ok'']) \<or>
      (\<exists>req. fin = [Info ''submit'', Submit req, Warn ''retry failed, skip''] \<and>
             int (length reqs) = 3 - 0)"
    by auto
  from fin have "inits fin = []" by auto
  then show ?thesis by (simp add: run inits_append inits_failed)
qed

lemma attempts_submit_loop: "attempts (fst (submit_loop cfg t sec is_first 0 w)) \<le> 4"
proof -
  from submit_loop_shape [of 0 cfg t sec is_first w]
  obtain reqs fin w' where
    run: "submit_loop cfg t sec is_first 0 w = (concat (map failed_attempt reqs) @ fin, w')"
    and len: "int (length reqs) \<le> 3 - 0"
    and fin: "fin = [Warn ''build failed, skip''] \<or>
      (\<exists>req. fin = [Info ''submit'', Submit req, Success ''submit ok'']) \<or>
      (\<exists>req. fin = [Info ''submit'', Submit req, Warn ''retry failed, skip''] \<and>
             int (length reqs) = 3 - 0)"
    by auto
  from fin have "attempts fin \<le> 1" by auto
  then show ?thesis using len by (simp add: run attempts_append attempts_failed)
qed

lemma handle_sections_skip:
  "shd (initialize_results w) = None \<or> shd (initialize_results w) = Some 0 \<Longrightarrow>
   handle_sections cfg is_first ((sid, section_info) # rest) w =
     (case handle_sections cfg is_first rest (w\<lparr>initialize_results := stl (initialize_results w)\<rparr>) of
        (trace, ok, w') \<Rightarrow> (InitSection sid # Warn ''init failed, skip'' # trace, ok, w'))"
  by (auto simp: Let_def)

lemma handle_sections_go:
  "shd (initialize_results w) = Some t \<Longrightarrow> t \<noteq> 0 \<Longrightarrow>
   w1 = w\<lparr>initialize_results := stl (initialize_results w)\<rparr> \<Longrightarrow>
   (if \<not> is_first then watch_pages (pages section_info) w1 else ([], True, w1))
     = (watched, ok, w2) \<Longrightarrow>
   handle_sections cfg is_first ((sid, section_info) # rest) w =
     (if \<not> ok then (InitSection sid # watched, False, w2)
      else
        (case submit_loop cfg t section_info is_first 0 w2 of
           (submitted, w3) \<Rightarrow>
             (case handle_sections cfg is_first rest w3 of
                (trace, ok', w') \<Rightarrow>
                  (InitSection sid # watched @ Info ''build'' # submitted @
                     (if \<not> is_first then [Sleep (sleep_time cfg)] else []) @ trace,
                   ok', w'))))"
  by (cases is_first) (simp_all add: Let_def)

lemma handle_sections_first_ok: "fst (snd (handle_sections cfg True secs w))"
proof (induction secs arbitrary: w)
  case Nil
  then show ?case by simp
next
  case (Cons entry rest)
  obtain sid section_info where entry: "entry = (sid, section_info)" by (cases entry)
  define w1 where "w1 = w\<lparr>initialize_results := stl (initialize_results w)\<rparr>"
  show ?case
  proof (cases "shd (initialize_results w) = None \<or> shd (initialize_results w) = Some 0")
    case True
    obtain tr ok w' where rec: "handle_sections cfg True rest w1 = (tr, ok, w')"
      by (cases "handle_sections cfg True rest w1")
    have ok using Cons.IH [of w1] by (simp add: rec)
    then show ?thesis
      unfolding entry handle_sections_skip [OF True] using rec
      by (simp add: w1_def)
  next
    case False
    then obtain t where t: "shd (initialize_results w) = Some t" "t \<noteq> 0"
      by (cases "shd (initialize_results w)") auto
    obtain submitted w3 where sl: "submit_loop cfg t section_info True 0 w1 = (submitted, w3)"
      by (cases "submit_loop cfg t section_info True 0 w1")
    obtain tr ok w' where rec: "handle_sections cfg True rest w3 = (tr, ok, w')"
      by (cases "handle_sections cfg True rest w3")
    have wp: "(if \<not> True then watch_pages (pages section_info) w1 else ([], True, w1))
        = ([], True, w1)"
      by simp
    have ok using Cons.IH [of w3] by (simp add: rec)
    then show ?thesis
      unfolding entry handle_sections_go [OF t w1_def wp] using rec sl
      by simp
  qed
qed

lemma handle_sections_inits:
  "fst (snd (handle_sections cfg is_first secs w)) \<Longrightarrow>
   inits (fst (handle_sections cfg is_first secs w)) = map fst secs"
proof (induction secs arbitrary: w)
  case Nil
  then show ?case by simp
next
  case (Cons entry rest)
  obtain sid section_info where entry: "entry = (sid, section_info)" by (cases entry)
  define w1 where "w1 = w\<lparr>initialize_results := stl (initialize_results w)\<rparr>"
  have ih: "\<And>w tr w'. handle_sections cfg is_first rest w = (tr, True, w') \<Longrightarrow>
      inits tr = map fst rest"
    using Cons.IH by (metis fst_conv snd_conv)
  show ?case
  proof (cases "shd (initialize_results w) = None \<or> shd (initialize_results w) = Some 0")
    case True
    obtain tr ok w' where rec: "handle_sections cfg is_first rest w1 = (tr, ok, w')"
      by (cases "handle_sections cfg is_first rest w1")
    have run: "handle_sections cfg is_first (entry # rest) w =
        (InitSection sid # Warn ''init failed, skip'' # tr, ok, w')"
      unfolding entry handle_sections_skip [OF True] using rec
      by (simp add: w1_def)
    from Cons.prems have "ok = True" by (simp only: run fst_conv snd_conv)
    with rec have "handle_sections cfg is_first rest w1 = (tr, True, w')" by simp
    then have "inits tr = map fst rest" by (rule ih)
    then show ?thesis by (simp only: run fst_conv) (simp add: entry)
  next
    case False
    then obtain t where t: "shd (initialize_results w) = Some t" "t \<noteq> 0"
      by (cases "shd (initialize_results w)") auto
    obtain watched ok w2 where wp: "(if \<not> is_first then watch_pages (pages section_info) w1
                      else ([], True, w1)) = (watched, ok, w2)"
      by (cases "if \<not> is_first then watch_pages (pages section_info) w1 else ([], True, w1)")
    have w0: "inits watched = []"
      using wp inits_watch_pages [of "pages section_info" w1]
      by (cases is_first) auto
    show ?thesis
    proof (cases ok)
      case no: False
      have "handle_sections cfg is_first (entry # rest) w = (InitSection sid # watched, False, w2)"
        unfolding entry handle_sections_go [OF t w1_def wp] using no
        by simp
      with Cons.prems show ?thesis by (simp only: fst_conv snd_conv)
    next
      case True
      obtain submitted w3 where
        sl: "submit_loop cfg t section_info is_first 0 w2 = (submitted, w3)"
        by (cases "submit_loop cfg t section_info is_first 0 w2")
      have s0: "inits submitted = []"
        using inits_submit_loop [of cfg t section_info is_first w2]
        by (simp add: sl)
      obtain tr ok' w' where rec: "handle_sections cfg is_first rest w3 = (tr, ok', w')"
        by (cases "handle_sections cfg is_first rest w3")
      have run: "handle_sections cfg is_first (entry # rest) w =
          (InitSection sid # watched @ Info ''build'' # submitted @
             (if \<not> is_first then [Sleep (sleep_time cfg)] else []) @ tr, ok', w')"
        unfolding entry handle_sections_go [OF t w1_def wp] using True sl rec
        by simp
      from Cons.prems have "ok' = True" by (simp only: run fst_conv snd_conv)
      with rec have "handle_sections cfg is_first rest w3 = (tr, True, w')" by simp
      then have "inits tr = map fst rest" by (rule ih)
      then show ?thesis
        by (simp only: run fst_conv) (simp add: entry inits_append w0 s0)
    qed
  qed
qed

lemma ex_build:
  "build_sync_study_record_request 5 ex_section_done ''name'' ex_config True amb =
     (Some ex_request, amb)"
  unfolding build_sync_study_record_request_def build_pages_first
  by (simp add: first_pass_record_def ex_request_def ex_section_done_def ex_page_done_def)

lemma ex_submit_down:
  assumes "shd (sync_results w) = False" "stl (sync_results w) = sync_results w"
  shows "fst (submit_loop ex_handler_config 5 ex_section_done True retry w) =
     (if retry \<ge> 3 then [Info ''submit'', Submit ex_request, Warn ''retry failed, skip'']
      else failed_attempt ex_request @
           fst (submit_loop ex_handler_config 5 ex_section_done True (retry + 1) w))"
proof -
  have w: "w\<lparr>ambient := ambient w, sync_results := sync_results w\<rparr> = w" by simp
  show ?thesis
    using assms
    by (subst submit_loop.simps)
       (simp add: ex_build ex_handler_config_def failed_attempt_def w split: prod.splits)
qed

lemma ex_world_down_sync:
  "shd (sync_results ex_world_down) = False"
  "stl (sync_results ex_world_down) = sync_results ex_world_down"
  by (simp_all add: ex_world_down_def)

lemma ex_four_submissions:
  "fst (submit_loop ex_handler_config 5 ex_section_done True 0 ex_world_down) =
     failed_attempt ex_request @ failed_attempt ex_request @ failed_attempt ex_request @
     [Info ''submit'', Submit ex_request, Warn ''retry failed, skip'']"
proof -
  note step = ex_submit_down [OF ex_world_down_sync]
  have "fst (submit_loop ex_handler_config 5 ex_section_done True 3 ex_world_down) =
      [Info ''submit'', Submit ex_request, Warn ''retry failed, skip'']"
    by (subst step) simp
  then have "fst (submit_loop ex_handler_config 5 ex_section_done True 2 ex_world_down) =
      failed_attempt ex_request @ [Info ''submit'', Submit ex_request, Warn ''retry failed, skip'']"
    by (subst step) simp
  then have "fst (submit_loop ex_handler_config 5 ex_section_done True 1 ex_world_down) =
      failed_attempt ex_request @ failed_attempt ex_request @
      [Info ''submit'', Submit ex_request, Warn ''retry failed, skip'']"
    by (subst step) simp
  then show ?thesis
    by (subst step) simp
qed

section \<open>Orchestrator: the claim\<close>

text \<open>
  C6 (as amended). For every section the submission loop submits at most four times:
  the first attempt and at most three retries, with a sleep of one second after each
  failed attempt before the next. It ends when the report cannot be built, when a
  submission among the first three succeeds, or after the fourth submission, where it
  logs that it gives up. The loop always returns, so that the handler goes on with the
  next section: on the first pass the handler never ends early, and whenever it ends
  regularly it has initialised every section of the chapter in order. The claim's bound
  of three attempts fails: with a server that rejects every report there are four
  submissions.
\<close>

theorem submission_retry_bound:
  "(\<exists>reqs fin w'.
      submit_loop cfg t section_info is_first 0 w = (concat (map failed_attempt reqs) @ fin, w') \<and>
      length reqs \<le> 3 \<and>
      (fin = [Warn ''build failed, skip''] \<or>
       (\<exists>req. fin = [Info ''submit'', Submit req, Success ''submit ok'']) \<or>
       (\<exists>req. fin = [Info ''submit'', Submit req, Warn ''retry failed, skip''] \<and>
              length reqs = 3))) \<and>
   attempts (fst (submit_loop cfg t section_info is_first 0 w)) \<le> 4 \<and>
   fst (snd (handle_sections cfg True secs w)) \<and>
   (fst (snd (handle_sections cfg is_first secs w)) \<longrightarrow>
      inits (fst (handle_sections cfg is_first secs w)) = map fst secs)"
proof (intro conjI impI)
  from submit_loop_shape [of 0 cfg t section_info is_first w]
  show "\<exists>reqs fin w'.
      submit_loop cfg t section_info is_first 0 w = (concat (map failed_attempt reqs) @ fin, w') \<and>
      length reqs \<le> 3 \<and>
      (fin = [Warn ''build failed, skip''] \<or>
       (\<exists>req. fin = [Info ''submit'', Submit req, Success ''submit ok'']) \<or>
       (\<exists>req. fin = [Info ''submit'', Submit req, Warn ''retry failed, skip''] \<and>
              length reqs = 3))"
    by simp
  show "attempts (fst (submit_loop cfg t section_info is_first 0 w)) \<le> 4"
    by (rule attempts_submit_loop)
  show "fst (snd (handle_sections cfg True secs w))"
    by (rule handle_sections_first_ok)
  show "inits (fst (handle_sections cfg is_first secs w)) = map fst secs"
    if "fst (snd (handle_sections cfg is_first secs w))"
    using that by (rule handle_sections_inits)
qed

theorem submission_retry_bound_witness:
  "attempts (fst (submit_loop ex_handler_config 5 ex_section_done True 0 ex_world_down)) \<le> 4 \<and>
   fst (submit_loop ex_handler_config 5 ex_section_done True 0 ex_world_down) =
     failed_attempt ex_request @ failed_attempt ex_request @ failed_attempt ex_request @
     [Info ''submit'', Submit ex_request, Warn ''retry failed, skip''] \<and>
   fst (snd (handle_sections ex_handler_config True (sections ex_chapter) ex_world_down)) \<and>
   inits (fst (handle_sections ex_handler_config True (sections ex_chapter) ex_world_down))
     = [30, 31]"
proof -
  have ids: "map fst (sections ex_chapter) = [30, 31]"
    by (simp add: ex_chapter_def)
  from submission_retry_bound [of ex_handler_config 5 ex_section_done True ex_world_down
      "sections ex_chapter"] ids ex_four_submissions
  show ?thesis by simp
qed

theorem three_attempts_counterexample:
  "shd (sync_results ex_world_down) = False \<and>
   fst (submit_loop ex_handler_config 5 ex_section_done True 0 ex_world_down) =
     [Info ''submit'', Submit ex_request, Warn ''submit failed'', Sleep 1,
      Info ''submit'', Submit ex_request, Warn ''submit failed'', Sleep 1,
      Info ''submit'', Submit ex_request, Warn ''submit failed'', Sleep 1,
      Info ''submit'', Submit ex_request, Warn ''retry failed, skip''] \<and>
   attempts (fst (submit_loop ex_handler_config 5 ex_section_done True 0 ex_world_down)) = 4 \<and>
   \<not> (4 \<le> (3 :: nat))"
  using ex_world_down_sync(1) by (simp add: ex_four_submissions failed_attempt_def)

end
